theory Spec2Isabelle
  imports Main
begin

section \<open>The checkout bootstrapper \<open>src/setup.js\<close>\<close>

text \<open>
  The module \<open>setup.js\<close> runs once when the page loads it: it derives the environment from
  the page origin, registers a handler for unobserved promise failures, looks for the script
  element that loaded it, and configures and initialises the SDK. It reads and writes the
  process-wide object \<open>config\<close> and talks to collaborators that live in other modules
  (the logger, the bridge, the helpers of \<open>./lib\<close>). The model threads the mutable part
  of the program through a record and records every call to a collaborator as an event,
  in the order in which the calls are made. A collaborator is taken to return from every
  call, except where the source itself provides for a failure (the flush of the logger and
  the console of the page).
\<close>

subsection \<open>JavaScript values\<close>

text \<open>
  A Flow type \<open>?string\<close> admits \<open>undefined\<close>, \<open>null\<close> and a string;
  \<open>getAttribute\<close> returns \<open>null\<close> or a string.
\<close>

datatype 'a nullable = Undefined | Null | Val 'a

text \<open>
  The result of a property read \<open>obj[key]\<close> on one of the lookup tables of \<open>config\<close>:
  a string that the table owns, a value found on the prototype chain (a function or an
  object, never a string), or \<open>undefined\<close>.
\<close>

datatype jsval = JUndefined | JStr string | JObject

text \<open>JavaScript truthiness, as used by \<open>if (x)\<close>, \<open>!x\<close> and \<open>x && y\<close>.\<close>

fun truthy :: "jsval \<Rightarrow> bool" where
  "truthy JUndefined = False"
| "truthy (JStr s) = (s \<noteq> [])"
| "truthy JObject = True"

fun truthy_str :: "string nullable \<Rightarrow> bool" where
  "truthy_str (Val s) = (s \<noteq> [])"
| "truthy_str _ = False"

fun truthy_bool :: "bool nullable \<Rightarrow> bool" where
  "truthy_bool (Val b) = b"
| "truthy_bool _ = False"

text \<open>
  A plain object used as a lookup table: its own enumerable properties in the order in which
  \<open>Object.keys\<close> lists them, and the names that a property read finds on the prototype
  chain when the object has no own property of that name (for an object literal these are
  the members of \<open>Object.prototype\<close>, such as \<open>constructor\<close> and \<open>toString\<close>).
\<close>

record jsobj =
  own :: "(string \<times> string) list"
  inherited :: "string list"

definition Object_keys :: "jsobj \<Rightarrow> string list" where
  "Object_keys obj = map fst (own obj)"

definition js_get :: "jsobj \<Rightarrow> string \<Rightarrow> jsval" where
  "js_get obj k =
     (case map_of (own obj) k of
        Some v \<Rightarrow> JStr v
      | None \<Rightarrow> if k \<in> set (inherited obj) then JObject else JUndefined)"

subsection \<open>The configuration object and the state of the module\<close>

text \<open>
  The fields of \<open>config\<close> (declared in \<open>./config\<close>) that \<open>setup.js\<close> reads or writes.
\<close>

record config =
  env :: string
  stage :: string
  apiStage :: string
  state :: string
  ppobjects :: bool
  logLevel :: string
  scriptUrl :: string
  version :: string
  paypalUrls :: jsobj
  postBridgeUrls :: jsobj
  paypalDomains :: jsobj

text \<open>Keys and constant values of the tracking payloads (\<open>FPTI.KEY\<close>, \<open>FPTI.STATE\<close>,
  \<open>FPTI.TRANSITION\<close> of \<open>./config\<close>), kept symbolic.\<close>

datatype fpti_key = ERROR_CODE | ERROR_DESC | STATE | TRANSITION | TRANSITION_TIME

text \<open>
  A value thrown or passed as a rejection reason: an object with an identity, an optional
  \<open>stack\<close> and the text that its \<open>toString()\<close> returns; or \<open>null\<close>/\<open>undefined\<close>,
  on which any property read throws a \<open>TypeError\<close>.
\<close>

datatype thrown =
    ErrObj nat "string nullable" string
  | Nullish
  | TypeError

text \<open>
  Payload values. The helpers \<open>stringifyError\<close> and \<open>stringifyErrorMessage\<close> of \<open>./lib\<close>
  and the call \<open>({}).toString.call(err)\<close> are kept as symbolic applications to the error.
\<close>

datatype pval =
    PStr string
  | PNum nat
  | PUndefined
  | LOAD
  | SCRIPT_LOAD
  | StringifyError thrown
  | StringifyErrorMessage thrown
  | ObjectToString thrown

text \<open>The calls that the module makes to its collaborators, and the timers it sets.\<close>

datatype event =
    LoggerDebug string "(string \<times> pval) list"
  | LoggerInfo string
  | LoggerWarn string
  | LoggerError string "(string \<times> pval) list"
  | LoggerTrack "(fpti_key \<times> pval) list"
  | LoggerFlush
  | SetLogLevel string
  | CheckForCommonErrors
  | CreatePptmScript
  | InitLogger
  | OpenBridge jsval jsval
  | ConsoleError string string
  | ConsoleLog string string
  | SetTimeoutThrow thrown nat

text \<open>
  The mutable state: the configuration object, the flag of the run-once wrapper around
  \<open>init\<close>, and the events emitted so far (oldest first).
\<close>

record sdk =
  cfg :: config
  init_called :: bool
  events :: "event list"

definition emit :: "event \<Rightarrow> sdk \<Rightarrow> sdk" where
  "emit e s = s\<lparr>events := events s @ [e]\<rparr>"

datatype error = InvalidEnv string

subsection \<open>Environment resolver\<close>

text \<open>
  \<^verbatim>\<open>
  function domainToEnv(domain) {
      for (let env of Object.keys(config.paypalUrls)) {
          if (config.paypalUrls[env] === domain) { return env; }
      }
  }
  \<close>
  The loop runs over the keys in order and stops at the first one whose value is strictly
  equal to the domain; falling off the end returns \<open>undefined\<close>.
\<close>

fun domainToEnv_loop :: "jsobj \<Rightarrow> string list \<Rightarrow> string \<Rightarrow> string option" where
  "domainToEnv_loop urls [] domain = None"
| "domainToEnv_loop urls (e # es) domain =
     (if js_get urls e = JStr domain then Some e else domainToEnv_loop urls es domain)"

definition domainToEnv :: "config \<Rightarrow> string \<Rightarrow> string option" where
  "domainToEnv c domain = domainToEnv_loop (paypalUrls c) (Object_keys (paypalUrls c)) domain"

text \<open>
  \<^verbatim>\<open>
  function setDomainEnv(domain) {
      let currentDomainEnv = domainToEnv(domain);
      if (currentDomainEnv && currentDomainEnv !== 'test') { config.env = currentDomainEnv; }
  }
  \<close>
  The function has no \<open>throw\<close> and calls nothing that throws, so it always returns.
\<close>

definition setDomainEnv :: "string \<Rightarrow> sdk \<Rightarrow> sdk" where
  "setDomainEnv domain s =
     (case domainToEnv (cfg s) domain of
        None \<Rightarrow> s
      | Some currentDomainEnv \<Rightarrow>
          if currentDomainEnv \<noteq> [] \<and> currentDomainEnv \<noteq> ''test''
          then s\<lparr>cfg := (cfg s)\<lparr>env := currentDomainEnv\<rparr>\<rparr>
          else s)"

subsection \<open>Configuration builder\<close>

text \<open>The argument of \<open>configure\<close> and \<open>setup\<close> (the Flow type \<open>ConfigOptions\<close>).
  The parameter list also destructures a field \<open>paypalUrl\<close>, which the body never reads.\<close>

record options =
  opt_env :: "string nullable"
  opt_stage :: "string nullable"
  opt_apiStage :: "string nullable"
  opt_state :: "string nullable"
  opt_ppobjects :: "bool nullable"
  opt_logLevel :: "string nullable"

text \<open>The default argument \<open>{}\<close>: every field reads as \<open>undefined\<close>.\<close>

definition no_options :: options where
  "no_options =
     \<lparr>opt_env = Undefined, opt_stage = Undefined, opt_apiStage = Undefined,
      opt_state = Undefined, opt_ppobjects = Undefined, opt_logLevel = Undefined\<rparr>"

text \<open>The string held by a field; read only under the guard \<open>truthy_str\<close>.\<close>

fun str_of :: "string nullable \<Rightarrow> string" where
  "str_of (Val s) = s"
| "str_of _ = []"

text \<open>
  The part of \<open>configure\<close> after the environment block: four guarded assignments and the
  unconditional call of \<open>setLogLevel\<close> (a function of \<open>./lib\<close>, recorded as an event).
  \<^verbatim>\<open>
  if (stage)     { delete config.stage;    config.stage = stage; }
  if (apiStage)  { delete config.apiStage; config.apiStage = apiStage; }
  if (state)     { delete config.state;    config.state = state; }
  if (ppobjects) { config.ppobjects = true; }
  if (logLevel)  { setLogLevel(logLevel); } else { setLogLevel(config.logLevel); }
  \<close>
\<close>

definition configure_stage :: "options \<Rightarrow> config \<Rightarrow> config" where
  "configure_stage opts c =
     (if truthy_str (opt_stage opts) then c\<lparr>stage := str_of (opt_stage opts)\<rparr> else c)"

definition configure_apiStage :: "options \<Rightarrow> config \<Rightarrow> config" where
  "configure_apiStage opts c =
     (if truthy_str (opt_apiStage opts) then c\<lparr>apiStage := str_of (opt_apiStage opts)\<rparr> else c)"

definition configure_state :: "options \<Rightarrow> config \<Rightarrow> config" where
  "configure_state opts c =
     (if truthy_str (opt_state opts) then c\<lparr>state := str_of (opt_state opts)\<rparr> else c)"

definition configure_ppobjects :: "options \<Rightarrow> config \<Rightarrow> config" where
  "configure_ppobjects opts c =
     (if truthy_bool (opt_ppobjects opts) then c\<lparr>ppobjects := True\<rparr> else c)"

definition configure_logLevel :: "options \<Rightarrow> sdk \<Rightarrow> sdk" where
  "configure_logLevel opts s =
     (if truthy_str (opt_logLevel opts)
      then emit (SetLogLevel (str_of (opt_logLevel opts))) s
      else emit (SetLogLevel (logLevel (cfg s))) s)"

definition configure_rest :: "options \<Rightarrow> sdk \<Rightarrow> sdk" where
  "configure_rest opts s =
     configure_logLevel opts
       (s\<lparr>cfg := configure_ppobjects opts (configure_state opts
                   (configure_apiStage opts (configure_stage opts (cfg s))))\<rparr>)"

text \<open>
  \<^verbatim>\<open>
  if (env) {
      if (!config.paypalUrls[env]) { throw new Error(`Invalid env: ${env}`); }
      delete config.env;
      config.env = env;
  }
  \<close>
  A raised error comes with the state at the moment of the \<open>throw\<close>.
\<close>

definition configure :: "options \<Rightarrow> sdk \<Rightarrow> error \<times> sdk + sdk" where
  "configure opts s =
     (if truthy_str (opt_env opts)
      then (if \<not> truthy (js_get (paypalUrls (cfg s)) (str_of (opt_env opts)))
            then Inl (InvalidEnv (str_of (opt_env opts)), s)
            else Inr (configure_rest opts (s\<lparr>cfg := (cfg s)\<lparr>env := str_of (opt_env opts)\<rparr>\<rparr>)))
      else Inr (configure_rest opts s))"

subsection \<open>Script-tag locator\<close>

text \<open>
  A script element, as far as the module looks at it: the \<open>src\<close> property (the empty
  string when the element has none) and the attributes by name.
\<close>

record script =
  src :: string
  attrs :: "(string \<times> string) list"

definition hasAttribute :: "script \<Rightarrow> string \<Rightarrow> bool" where
  "hasAttribute sc name = (map_of (attrs sc) name \<noteq> None)"

definition getAttribute :: "script \<Rightarrow> string \<Rightarrow> string nullable" where
  "getAttribute sc name = (case map_of (attrs sc) name of None \<Rightarrow> Null | Some v \<Rightarrow> Val v)"

text \<open>
  What the module reads from the page: \<open>window.location.protocol\<close> and
  \<open>window.location.host\<close>; the list \<open>document.getElementsByTagName('script')\<close>, in
  document order, and \<open>document.currentScript\<close>; the answers of \<open>isEligible()\<close> and
  \<open>isPayPalDomain()\<close>; whether \<open>getDomainSetting('force_bridge')\<close> and the imported
  \<open>bridge\<close> are truthy; and the function \<open>getResourceLoadTime\<close>.
\<close>

record page =
  location_protocol :: string
  location_host :: string
  scripts :: "script list"
  currentScript :: "script option"
  isEligible :: bool
  isPayPalDomain :: bool
  force_bridge :: bool
  bridge :: bool
  getResourceLoadTime :: "string \<Rightarrow> nat option"

fun startsWith :: "string \<Rightarrow> string \<Rightarrow> bool" where
  "startsWith [] s = True"
| "startsWith (p # ps) [] = False"
| "startsWith (p # ps) (c # cs) = (p = c \<and> startsWith ps cs)"

text \<open>\<open>s.replace(/^https?:/, '')\<close>: the pattern is anchored at the start, has no flags, and
  matches \<open>http:\<close> or \<open>https:\<close>.\<close>

definition strip_protocol :: "string \<Rightarrow> string" where
  "strip_protocol s =
     (if startsWith ''http:'' s then drop 5 s
      else if startsWith ''https:'' s then drop 6 s
      else s)"

text \<open>\<open>s.split(c)[0]\<close>: the part of \<open>s\<close> before the first \<open>c\<close>, all of \<open>s\<close> when there is none.\<close>

definition split_head :: "char \<Rightarrow> string \<Rightarrow> string" where
  "split_head c s = takeWhile (\<lambda>x. x \<noteq> c) s"

text \<open>\<open>s.indexOf(sub)\<close>: the least position at which \<open>sub\<close> occurs in \<open>s\<close>, or \<open>-1\<close>.\<close>

fun indexOf_from :: "int \<Rightarrow> string \<Rightarrow> string \<Rightarrow> int" where
  "indexOf_from i [] sub = (if sub = [] then i else - 1)"
| "indexOf_from i (c # cs) sub =
     (if startsWith sub (c # cs) then i else indexOf_from (i + 1) cs sub)"

definition indexOf :: "string \<Rightarrow> string \<Rightarrow> int" where
  "indexOf s sub = indexOf_from 0 s sub"

text \<open>
  \<^verbatim>\<open>
  for (let script of scripts) {
      if (script.src && script.src.replace(/^https?:/, '').split('?')[0] === config.scriptUrl
              || script.hasAttribute('data-paypal-checkout')) { return script; }
      if (script.src && script.src.indexOf('paypal.checkout.v4.js') !== -1) { return script; }
  }
  \<close>
  \<open>&&\<close> binds tighter than \<open>||\<close>.
\<close>

fun getCurrentScript_loop :: "config \<Rightarrow> script list \<Rightarrow> script option" where
  "getCurrentScript_loop c [] = None"
| "getCurrentScript_loop c (sc # rest) =
     (if (src sc \<noteq> [] \<and> split_head CHR ''?'' (strip_protocol (src sc)) = scriptUrl c)
          \<or> hasAttribute sc ''data-paypal-checkout''
      then Some sc
      else if src sc \<noteq> [] \<and> indexOf (src sc) ''paypal.checkout.v4.js'' \<noteq> - 1
      then Some sc
      else getCurrentScript_loop c rest)"

text \<open>
  After the loop:
  \<^verbatim>\<open>
  if (document.currentScript) {
      $logger.debug(`current_script_not_recognized`, { src: document.currentScript.src });
  }
  \<close>
  and the function returns \<open>undefined\<close>.
\<close>

definition not_recognized :: "page \<Rightarrow> sdk \<Rightarrow> sdk" where
  "not_recognized p s =
     (case currentScript p of
        None \<Rightarrow> s
      | Some cur \<Rightarrow> emit (LoggerDebug ''current_script_not_recognized'' [(''src'', PStr (src cur))]) s)"

definition getCurrentScript :: "page \<Rightarrow> sdk \<Rightarrow> script option \<times> sdk" where
  "getCurrentScript p s =
     (case getCurrentScript_loop (cfg s) (scripts p) of
        Some sc \<Rightarrow> (Some sc, s)
      | None \<Rightarrow> (None, not_recognized p s))"

text \<open>The three heuristics in the words of the specification: the stripped source URL
  equals the configured script URL; the element carries the marker attribute; the source
  URL contains the legacy file name.\<close>

definition stripped_src :: "script \<Rightarrow> string" where
  "stripped_src sc = takeWhile (\<lambda>x. x \<noteq> CHR ''?'') (strip_protocol (src sc))"

definition has_marker :: "script \<Rightarrow> bool" where
  "has_marker sc = (''data-paypal-checkout'' \<in> fst ` set (attrs sc))"

definition has_legacy_name :: "script \<Rightarrow> bool" where
  "has_legacy_name sc = (\<exists>u v. src sc = u @ ''paypal.checkout.v4.js'' @ v)"

definition recognized :: "config \<Rightarrow> script \<Rightarrow> bool" where
  "recognized c sc = (stripped_src sc = scriptUrl c \<or> has_marker sc \<or> has_legacy_name sc)"

subsection \<open>Reporter of unobserved failures\<close>

text \<open>A function of \<open>window.console\<close>, when it is there: the call returns, or it throws.\<close>

datatype behaviour = Returns | Throws thrown

record console =
  console_error :: "behaviour option"
  console_log :: "behaviour option"

text \<open>\<open>err2.stack || err2.toString()\<close>; reading a property of \<open>null\<close> or \<open>undefined\<close>
  throws a \<open>TypeError\<close>.\<close>

fun stack_or_toString :: "thrown \<Rightarrow> thrown + string" where
  "stack_or_toString (ErrObj i st txt) = Inr (if truthy_str st then str_of st else txt)"
| "stack_or_toString Nullish = Inl TypeError"
| "stack_or_toString TypeError = Inr ''TypeError''"

text \<open>
  One console write inside the \<open>try\<close>: the argument is evaluated, then the function is
  called; whatever either of them throws is caught as \<open>err3\<close> and thrown again from a
  timer of one millisecond:
  \<^verbatim>\<open>
  } catch (err3) { setTimeout(() => { throw err3; }, 1); }
  \<close>
\<close>

definition console_write :: "(string \<Rightarrow> string \<Rightarrow> event) \<Rightarrow> behaviour \<Rightarrow> thrown \<Rightarrow> sdk \<Rightarrow> sdk" where
  "console_write call m err2 s =
     (case stack_or_toString err2 of
        Inl err3 \<Rightarrow> emit (SetTimeoutThrow err3 1) s
      | Inr txt \<Rightarrow>
          (case m of
             Returns \<Rightarrow> emit (call ''Error flushing:'' txt) s
           | Throws err3 \<Rightarrow> emit (SetTimeoutThrow err3 1) (emit (call ''Error flushing:'' txt) s)))"

text \<open>
  The rejection callback of the flush:
  \<^verbatim>\<open>
  err2 => {
      if (window.console) {
          try {
              if (window.console.error) { window.console.error('Error flushing:', ...); }
              else if (window.console.log) { window.console.log('Error flushing:', ...); }
          } catch (err3) { ... }
      }
  }
  \<close>
\<close>

definition flush_failed :: "console option \<Rightarrow> thrown \<Rightarrow> sdk \<Rightarrow> sdk" where
  "flush_failed con err2 s =
     (case con of
        None \<Rightarrow> s
      | Some w \<Rightarrow>
          (case console_error w of
             Some m \<Rightarrow> console_write ConsoleError m err2 s
           | None \<Rightarrow>
               (case console_log w of
                  Some m \<Rightarrow> console_write ConsoleLog m err2 s
                | None \<Rightarrow> s)))"

text \<open>
  The handler registered with \<open>ZalgoPromise.onPossiblyUnhandledException\<close>. Its arguments
  besides the error are the console of the page and the outcome of \<open>$logger.flush()\<close>:
  \<open>None\<close> when the promise resolves, \<open>Some err2\<close> when it rejects with \<open>err2\<close>.
\<close>

definition onPossiblyUnhandledException :: "console option \<Rightarrow> thrown option \<Rightarrow> thrown \<Rightarrow> sdk \<Rightarrow> sdk" where
  "onPossiblyUnhandledException con flush_result err s =
     (let s1 = emit (LoggerError ''unhandled_error''
                       [(''stack'', StringifyError err), (''errtype'', ObjectToString err)]) s;
          s2 = emit (LoggerTrack
                       [(ERROR_CODE, PStr ''checkoutjs_error''),
                        (ERROR_DESC, StringifyErrorMessage err)]) s1;
          s3 = emit LoggerFlush s2
      in case flush_result of
           None \<Rightarrow> s3
         | Some err2 \<Rightarrow> flush_failed con err2 s3)"

text \<open>The events that a step appended to the log of the state it started from.\<close>

definition emitted :: "sdk \<Rightarrow> sdk \<Rightarrow> event list" where
  "emitted s s' = drop (length (events s)) (events s')"

fun is_error_log :: "event \<Rightarrow> bool" where
  "is_error_log (LoggerError n pl) = True"
| "is_error_log _ = False"

fun is_track :: "event \<Rightarrow> bool" where
  "is_track (LoggerTrack pl) = True"
| "is_track _ = False"

fun is_flush :: "event \<Rightarrow> bool" where
  "is_flush LoggerFlush = True"
| "is_flush _ = False"

fun is_timer :: "event \<Rightarrow> bool" where
  "is_timer (SetTimeoutThrow e d) = True"
| "is_timer _ = False"

fun is_not_recognized :: "event \<Rightarrow> bool" where
  "is_not_recognized (LoggerDebug n pl) = (n = ''current_script_not_recognized'')"
| "is_not_recognized _ = False"

subsection \<open>Idempotent initializer\<close>

text \<open>\<open>let currentProtocol = window.location.protocol.split(':')[0];\<close>\<close>

definition currentProtocol :: "page \<Rightarrow> string" where
  "currentProtocol p = split_head CHR '':'' (location_protocol p)"

text \<open>
  The function that the module passes to \<open>once\<close>:
  \<^verbatim>\<open>
  if (!isEligible()) { $logger.warn('ineligible'); }
  checkForCommonErrors();
  if (!isPayPalDomain()) { createPptmScript(); }
  initLogger();
  if (getDomainSetting('force_bridge') && bridge && !isPayPalDomain()) {
      bridge.openBridge(config.postBridgeUrls[config.env], config.paypalDomains[config.env]);
  }
  $logger.info(`setup_${config.env}`);
  $logger.debug(`current_protocol_${currentProtocol}`);
  \<close>
\<close>

definition init_body :: "page \<Rightarrow> sdk \<Rightarrow> sdk" where
  "init_body p s =
     (let s1 = (if \<not> isEligible p then emit (LoggerWarn ''ineligible'') s else s);
          s2 = emit CheckForCommonErrors s1;
          s3 = (if \<not> isPayPalDomain p then emit CreatePptmScript s2 else s2);
          s4 = emit InitLogger s3;
          s5 = (if force_bridge p \<and> bridge p \<and> \<not> isPayPalDomain p
                then emit (OpenBridge (js_get (postBridgeUrls (cfg s4)) (env (cfg s4)))
                                      (js_get (paypalDomains (cfg s4)) (env (cfg s4)))) s4
                else s4);
          s6 = emit (LoggerInfo (''setup_'' @ env (cfg s5))) s5
      in emit (LoggerDebug (''current_protocol_'' @ currentProtocol p) []) s6)"

text \<open>
  Modelled from the spec: the helper \<open>once\<close> of \<open>./lib\<close>, which \<open>setup.js\<close> imports and
  whose source is not available. The specification describes the wrapper as a machine with
  the states not-run and run: the first invocation moves it to run and performs the body,
  with the guard set before the body starts; every later invocation is a no-op. The state
  of the one wrapper that the module creates is the field \<open>init_called\<close>.
\<close>

definition once :: "(sdk \<Rightarrow> sdk) \<Rightarrow> sdk \<Rightarrow> sdk" where
  "once body s = (if init_called s then s else body (s\<lparr>init_called := True\<rparr>))"

text \<open>\<open>export let init = once(() => { ... });\<close>\<close>

definition init :: "page \<Rightarrow> sdk \<Rightarrow> sdk" where
  "init p = once (init_body p)"

text \<open>
  \<^verbatim>\<open>
  export function setup(options = {}) { configure(options); init(); }
  \<close>
  An error raised by \<open>configure\<close> leaves \<open>setup\<close> before \<open>init\<close> is called.
  (The name \<open>setup\<close> is a keyword of the theory language, hence the suffix.)
\<close>

definition setup_sdk :: "page \<Rightarrow> options \<Rightarrow> sdk \<Rightarrow> error \<times> sdk + sdk" where
  "setup_sdk p opts s =
     (case configure opts s of
        Inl e \<Rightarrow> Inl e
      | Inr s' \<Rightarrow> Inr (init p s'))"

subsection \<open>The statements that run when the module is loaded\<close>

text \<open>\<open>config.version.replace(/[^0-9a-zA-Z]+/g, '_')\<close>: every maximal run of characters
  other than digits and letters becomes one underscore. The flag says that the previous
  character belonged to such a run.\<close>

definition alnum :: "char \<Rightarrow> bool" where
  "alnum c =
     (let n = (of_char c :: nat)
      in (48 \<le> n \<and> n \<le> 57) \<or> (65 \<le> n \<and> n \<le> 90) \<or> (97 \<le> n \<and> n \<le> 122))"

fun underscore_runs :: "bool \<Rightarrow> string \<Rightarrow> string" where
  "underscore_runs in_run [] = []"
| "underscore_runs in_run (c # cs) =
     (if alnum c then c # underscore_runs False cs
      else if in_run then underscore_runs True cs
      else CHR ''_'' # underscore_runs True cs)"

definition version_tag :: "config \<Rightarrow> string" where
  "version_tag c = underscore_runs False (version c)"

text \<open>Decimal digits of a natural number, for the template strings that embed one.\<close>

fun decimal :: "nat \<Rightarrow> string" where
  "decimal n =
     (if n < 10 then [char_of (48 + n)]
      else decimal (n div 10) @ [char_of (48 + n mod 10)])"

text \<open>
  The branch taken when the locator found the script element. The load time that
  \<open>getResourceLoadTime\<close> reports is taken in whole milliseconds, \<open>None\<close> for \<open>undefined\<close>.
  \<^verbatim>\<open>
  setup({ env: currentScript.getAttribute('data-env'), ..., ppobjects: true });
  let scriptProtocol = currentScript.src.split(':')[0];
  let loadTime = getResourceLoadTime(currentScript.src);
  $logger.debug(`current_script_protocol_${scriptProtocol}`);
  $logger.debug(`current_script_protocol_${ currentProtocol === scriptProtocol ? 'match' : 'mismatch' }`);
  $logger.debug(`current_script_version_${ config.version.replace(/[^0-9a-zA-Z]+/g, '_') }`);
  if (loadTime && !isPayPalDomain()) {
      $logger.debug(`current_script_time`, { loadTime });
      $logger.debug(`current_script_time_${ Math.floor(loadTime / 1000) }`);
  }
  $logger.track({ [STATE]: LOAD, [TRANSITION]: SCRIPT_LOAD, [TRANSITION_TIME]: loadTime });
  \<close>
\<close>

definition script_options :: "script \<Rightarrow> options" where
  "script_options sc =
     \<lparr>opt_env = getAttribute sc ''data-env'',
      opt_stage = getAttribute sc ''data-stage'',
      opt_apiStage = getAttribute sc ''data-api-stage'',
      opt_state = getAttribute sc ''data-state'',
      opt_ppobjects = Val True,
      opt_logLevel = getAttribute sc ''data-log-level''\<rparr>"

definition load_time_events :: "page \<Rightarrow> nat option \<Rightarrow> sdk \<Rightarrow> sdk" where
  "load_time_events p loadTime s =
     (case loadTime of
        None \<Rightarrow> s
      | Some t \<Rightarrow>
          if t \<noteq> 0 \<and> \<not> isPayPalDomain p
          then emit (LoggerDebug (''current_script_time_'' @ decimal (t div 1000)) [])
                 (emit (LoggerDebug ''current_script_time'' [(''loadTime'', PNum t)]) s)
          else s)"

definition with_script :: "page \<Rightarrow> script \<Rightarrow> sdk \<Rightarrow> error \<times> sdk + sdk" where
  "with_script p sc s =
     (case setup_sdk p (script_options sc) s of
        Inl e \<Rightarrow> Inl e
      | Inr s0 \<Rightarrow>
          (let scriptProtocol = split_head CHR '':'' (src sc);
               loadTime = getResourceLoadTime p (src sc);
               s1 = emit (LoggerDebug (''current_script_protocol_'' @ scriptProtocol) []) s0;
               s2 = emit (LoggerDebug (''current_script_protocol_'' @
                            (if currentProtocol p = scriptProtocol then ''match'' else ''mismatch'')) []) s1;
               s3 = emit (LoggerDebug (''current_script_version_'' @ version_tag (cfg s2)) []) s2;
               s4 = load_time_events p loadTime s3
           in Inr (emit (LoggerTrack
                     [(STATE, LOAD), (TRANSITION, SCRIPT_LOAD),
                      (TRANSITION_TIME, (case loadTime of None \<Rightarrow> PUndefined | Some t \<Rightarrow> PNum t))]) s4)))"

text \<open>
  The branch taken when the locator returned nothing:
  \<^verbatim>\<open>
  $logger.track({ [STATE]: LOAD, [TRANSITION]: SCRIPT_LOAD });
  $logger.debug(`no_current_script`);
  $logger.debug(`no_current_script_version_${ config.version.replace(/[^0-9a-zA-Z]+/g, '_') }`);
  if (document.currentScript) {
      $logger.debug(`current_script_not_recognized`, { src: document.currentScript.src });
  }
  setup();
  \<close>
\<close>

definition without_script :: "page \<Rightarrow> sdk \<Rightarrow> error \<times> sdk + sdk" where
  "without_script p s =
     (let s1 = emit (LoggerTrack [(STATE, LOAD), (TRANSITION, SCRIPT_LOAD)]) s;
          s2 = emit (LoggerDebug ''no_current_script'' []) s1;
          s3 = emit (LoggerDebug (''no_current_script_version_'' @ version_tag (cfg s2)) []) s2;
          s4 = not_recognized p s3
      in setup_sdk p no_options s4)"

text \<open>
  The module from top to bottom: the environment is derived from the origin
  \<open>`${window.location.protocol}//${window.location.host}`\<close>, the handler is registered
  (which emits nothing), the locator runs, and one of the two branches follows.
\<close>

definition bootstrap :: "page \<Rightarrow> sdk \<Rightarrow> error \<times> sdk + sdk" where
  "bootstrap p s =
     (let s1 = setDomainEnv (location_protocol p @ ''//'' @ location_host p) s
      in case getCurrentScript p s1 of
           (Some sc, s2) \<Rightarrow> with_script p sc s2
         | (None, s2) \<Rightarrow> without_script p s2)"

text \<open>The state in which calls are compared: \<open>n\<close> calls of the initializer in sequence.\<close>

definition init_times :: "nat \<Rightarrow> page \<Rightarrow> sdk \<Rightarrow> sdk" where
  "init_times n p s = ((init p) ^^ n) s"

subsection \<open>The events of the steps, written out\<close>

text \<open>The three calls that the handler makes before it looks at the outcome of the flush.\<close>

definition report_events :: "thrown \<Rightarrow> event list" where
  "report_events err =
     [LoggerError ''unhandled_error''
        [(''stack'', StringifyError err), (''errtype'', ObjectToString err)],
      LoggerTrack [(ERROR_CODE, PStr ''checkoutjs_error''), (ERROR_DESC, StringifyErrorMessage err)],
      LoggerFlush]"

text \<open>The calls of the body of \<open>init\<close>, in order, for a page and the configuration at the
  time of the call.\<close>

definition init_events :: "page \<Rightarrow> config \<Rightarrow> event list" where
  "init_events p c =
     (if \<not> isEligible p then [LoggerWarn ''ineligible''] else [])
     @ [CheckForCommonErrors]
     @ (if \<not> isPayPalDomain p then [CreatePptmScript] else [])
     @ [InitLogger]
     @ (if force_bridge p \<and> bridge p \<and> \<not> isPayPalDomain p
        then [OpenBridge (js_get (postBridgeUrls c) (env c)) (js_get (paypalDomains c) (env c))]
        else [])
     @ [LoggerInfo (''setup_'' @ env c), LoggerDebug (''current_protocol_'' @ currentProtocol p) []]"

text \<open>The events emitted while the module is loaded, whether the statements run to the end
  or stop at an error raised by \<open>configure\<close>.\<close>

definition bootstrap_events :: "page \<Rightarrow> sdk \<Rightarrow> event list" where
  "bootstrap_events p s =
     (case bootstrap p s of Inl (e, s') \<Rightarrow> emitted s s' | Inr s' \<Rightarrow> emitted s s')"

subsection \<open>A page, a configuration and some calls\<close>

text \<open>
  A table with the environments of the SDK. On the example page, which is served from
  \<open>http://localhost.paypal.com:9000\<close>, the entries \<open>test\<close> and \<open>demo\<close> both carry
  the origin of the page. The inherited names are members of \<open>Object.prototype\<close>.
\<close>

definition example_urls :: jsobj where
  "example_urls =
     \<lparr>own = [(''local'', ''http://localhost.paypal.com:8000''),
             (''sandbox'', ''https://www.sandbox.paypal.com''),
             (''production'', ''https://www.paypal.com''),
             (''test'', ''http://localhost.paypal.com:9000''),
             (''demo'', ''http://localhost.paypal.com:9000'')],
      inherited = [''constructor'', ''toString'', ''valueOf'', ''hasOwnProperty'']\<rparr>"

definition example_config :: config where
  "example_config =
     \<lparr>env = ''production'', stage = ''msmaster'', apiStage = ''msmaster'',
      state = ''checkoutjs'', ppobjects = False, logLevel = ''warn'',
      scriptUrl = ''//www.paypalobjects.com/api/checkout.js'', version = ''4.0.75'',
      paypalUrls = example_urls,
      postBridgeUrls = \<lparr>own = [(''production'', ''https://www.paypal.com/webapps/hermes/component-meta'')],
                        inherited = []\<rparr>,
      paypalDomains = \<lparr>own = [(''production'', ''https://www.paypal.com'')], inherited = []\<rparr>\<rparr>"

definition example_state :: sdk where
  "example_state = \<lparr>cfg = example_config, init_called = False, events = []\<rparr>"

definition plain_script :: script where
  "plain_script = \<lparr>src = ''https://example.com/app.js'', attrs = []\<rparr>"

definition checkout_script :: script where
  "checkout_script =
     \<lparr>src = ''https://www.paypalobjects.com/api/checkout.js?v=1'',
      attrs = [(''data-env'', ''sandbox'')]\<rparr>"

definition example_page :: page where
  "example_page =
     \<lparr>location_protocol = ''http:'', location_host = ''localhost.paypal.com:9000'',
      scripts = [plain_script], currentScript = Some plain_script,
      isEligible = True, isPayPalDomain = False, force_bridge = False, bridge = True,
      getResourceLoadTime = (\<lambda>u. None)\<rparr>"
definition module_page :: page where
  "module_page = example_page\<lparr>currentScript := None\<rparr>"

definition shop_page :: page where
  "shop_page = example_page\<lparr>scripts := [plain_script, checkout_script]\<rparr>"

definition bogus_options :: options where
  "bogus_options = no_options\<lparr>opt_env := Val ''bogus''\<rparr>"

definition empty_env_options :: options where
  "empty_env_options = no_options\<lparr>opt_env := Val []\<rparr>"

definition all_options :: options where
  "all_options =
     \<lparr>opt_env = Val ''sandbox'', opt_stage = Val ''stage2d0065'', opt_apiStage = Val ''api7'',
      opt_state = Val ''ui'', opt_ppobjects = Val True, opt_logLevel = Val ''debug''\<rparr>"

definition switched_off_options :: options where
  "switched_off_options = no_options\<lparr>opt_stage := Val [], opt_ppobjects := Val False\<rparr>"

definition falsy_options :: options where
  "falsy_options =
     \<lparr>opt_env = Val [], opt_stage = Null, opt_apiStage = Undefined,
      opt_state = Val [], opt_ppobjects = Val False, opt_logLevel = Null\<rparr>"

definition loaded_state :: sdk where
  "loaded_state = example_state\<lparr>cfg := example_config\<lparr>ppobjects := True\<rparr>\<rparr>"

definition page_error :: thrown where
  "page_error = ErrObj 1 Undefined ''Error: payment failed''"

definition flush_error :: thrown where
  "flush_error = ErrObj 2 (Val ''Error: flush failed at flush'') ''Error: flush failed''"

definition console_failure :: thrown where
  "console_failure = ErrObj 3 Undefined ''Error: console unavailable''"

definition broken_console :: console where
  "broken_console = \<lparr>console_error = Some (Throws console_failure), console_log = None\<rparr>"

definition log_only_console :: console where
  "log_only_console = \<lparr>console_error = None, console_log = Some (Throws console_failure)\<rparr>"

section \<open>Properties\<close>

lemmas example_defs = example_urls_def example_config_def example_state_def plain_script_def
  checkout_script_def example_page_def

lemmas more_defs = module_page_def shop_page_def bogus_options_def empty_env_options_def
  all_options_def switched_off_options_def falsy_options_def loaded_state_def page_error_def
  flush_error_def console_failure_def broken_console_def log_only_console_def no_options_def

subsection \<open>Events and state\<close>

lemma events_emit: "events (emit e s) = events s @ [e]"
  by (simp add: emit_def)

lemma cfg_emit: "cfg (emit e s) = cfg s"
  by (simp add: emit_def)

lemma init_called_emit: "init_called (emit e s) = init_called s"
  by (simp add: emit_def)

lemma emitted_append: "events s' = events s @ evs \<Longrightarrow> emitted s s' = evs"
  by (simp add: emitted_def)

lemma emitted_same: "emitted s s = []"
  by (simp add: emitted_def)

lemma filter_none: "(\<forall>e\<in>set evs. \<not> P e) \<Longrightarrow> filter P evs = []"
  by (induction evs) simp_all

subsection \<open>The initializer runs once\<close>

lemma init_called_init_body: "init_called (init_body p s) = init_called s"
  by (simp add: init_body_def Let_def init_called_emit)

lemma cfg_init_body: "cfg (init_body p s) = cfg s"
  by (simp add: init_body_def Let_def cfg_emit)

lemma events_init_body: "events (init_body p s) = events s @ init_events p (cfg s)"
  by (simp add: init_body_def init_events_def Let_def events_emit cfg_emit)

lemma events_init:
  "events (init p s) = events s @ (if init_called s then [] else init_events p (cfg s))"
  by (simp add: init_def once_def events_init_body)

lemma init_called_init: "init_called (init p s)"
  by (simp add: init_def once_def init_called_init_body)

lemma init_again: "init_called s \<Longrightarrow> init p s = s"
  by (simp add: init_def once_def)

lemma init_funpow: "((init p) ^^ Suc n) s = init p s"
proof (induction n)
  case 0
  show ?case by simp
next
  case (Suc n)
  have "((init p) ^^ Suc (Suc n)) s = init p (((init p) ^^ Suc n) s)" by simp
  also have "\<dots> = init p (init p s)" using Suc by simp
  also have "\<dots> = init p s" by (rule init_again) (rule init_called_init)
  finally show ?case .
qed

text \<open>
  Claim C1. Calling \<open>init\<close> more than once in sequence performs its steps exactly once:
  for every \<open>n > 1\<close>, the state after \<open>n\<close> calls, which includes the sequence of
  emitted events, is the state after one call. The run-once wrapper is the one described
  by the specification.
\<close>

theorem init_runs_once: "1 < n \<Longrightarrow> init_times n p s = init_times 1 p s"
proof -
  assume "1 < n"
  then obtain m where "n = Suc m" by (cases n) auto
  then show ?thesis by (simp only: init_times_def init_funpow One_nat_def)
qed

text \<open>Three calls on the example page emit the five events of one run.\<close>

theorem init_runs_once_witness:
  "(1::nat) < 3
   \<and> init_times 3 example_page example_state = init_times 1 example_page example_state
   \<and> events (init_times 3 example_page example_state) =
       [CheckForCommonErrors, CreatePptmScript, InitLogger,
        LoggerInfo ''setup_production'', LoggerDebug ''current_protocol_http'' []]"
proof -
  have h: "(1::nat) < 3" by simp
  have e: "events (init_times 1 example_page example_state) =
       [CheckForCommonErrors, CreatePptmScript, InitLogger,
        LoggerInfo ''setup_production'', LoggerDebug ''current_protocol_http'' []]"
    by (simp add: init_times_def events_init init_events_def currentProtocol_def split_head_def
        example_defs)
  from init_runs_once [OF h, of example_page example_state] e show ?thesis by simp
qed

subsection \<open>The configuration builder\<close>

lemma js_get_missing:
  "k \<notin> set (Object_keys obj) \<Longrightarrow> k \<notin> set (inherited obj) \<Longrightarrow> js_get obj k = JUndefined"
  by (simp add: js_get_def Object_keys_def map_of_eq_None_iff split: option.split)

lemma cfg_configure_logLevel: "cfg (configure_logLevel opts s) = cfg s"
  by (simp add: configure_logLevel_def cfg_emit)

lemmas configure_field_defs =
  configure_ppobjects_def configure_state_def configure_apiStage_def configure_stage_def

lemma events_configure_rest:
  "events (configure_rest opts s) =
     events s @ [SetLogLevel (if truthy_str (opt_logLevel opts) then str_of (opt_logLevel opts)
                              else logLevel (cfg s))]"
  by (simp add: configure_rest_def configure_logLevel_def events_emit cfg_emit
      configure_ppobjects_def configure_state_def configure_apiStage_def configure_stage_def)

lemma cfg_configure_rest:
  "cfg (configure_rest opts s) =
     configure_ppobjects opts (configure_state opts
       (configure_apiStage opts (configure_stage opts (cfg s))))"
  by (simp add: configure_rest_def cfg_configure_logLevel)

lemma configure_no_options: "configure no_options s = Inr (emit (SetLogLevel (logLevel (cfg s))) s)"
  by (simp add: configure_def no_options_def configure_rest_def configure_logLevel_def
      configure_field_defs)

lemma falsy_str: "x \<in> {Undefined, Null, Val []} \<longleftrightarrow> \<not> truthy_str x"
  by (cases x) auto

lemma falsy_bool: "x \<in> {Undefined, Null, Val False} \<longleftrightarrow> \<not> truthy_bool x"
  by (cases x) auto

text \<open>
  Claim C2, as stated, asks for an error whenever the environment override is present and
  is not a key of \<open>config.paypalUrls\<close>. The empty string is such an override, and the guard
  \<open>if (env)\<close> skips it: the call returns and only applies the default log level.
\<close>

theorem configure_empty_env_counterexample:
  "opt_env empty_env_options = Val []
   \<and> [] \<notin> set (Object_keys (paypalUrls (cfg example_state)))
   \<and> configure empty_env_options example_state = Inr (emit (SetLogLevel ''warn'') example_state)"
  by (simp add: more_defs example_defs Object_keys_def configure_def configure_rest_def
      configure_logLevel_def configure_field_defs)

text \<open>
  Claim C2, amended. For every options record whose environment override is a non-empty
  string that names no property of \<open>config.paypalUrls\<close>, neither an own key nor a name
  found on the prototype chain, \<open>configure\<close> raises the error \<open>Invalid env\<close> and leaves
  the state, and with it the active environment \<open>config.env\<close>, as it was.
\<close>

theorem configure_invalid_env:
  assumes "opt_env opts = Val e" and "e \<noteq> []"
    and "e \<notin> set (Object_keys (paypalUrls (cfg s)))"
    and "e \<notin> set (inherited (paypalUrls (cfg s)))"
  shows "configure opts s = Inl (InvalidEnv e, s)"
  using assms by (simp add: configure_def js_get_missing)

theorem configure_invalid_env_witness:
  "opt_env bogus_options = Val ''bogus'' \<and> ''bogus'' \<noteq> []
   \<and> ''bogus'' \<notin> set (Object_keys (paypalUrls (cfg example_state)))
   \<and> ''bogus'' \<notin> set (inherited (paypalUrls (cfg example_state)))
   \<and> configure bogus_options example_state = Inl (InvalidEnv ''bogus'', example_state)"
proof -
  have h1: "opt_env bogus_options = Val ''bogus''" by (simp add: more_defs)
  have h2: "''bogus'' \<noteq> []" by simp
  have h3: "''bogus'' \<notin> set (Object_keys (paypalUrls (cfg example_state)))"
    by (simp add: example_defs Object_keys_def)
  have h4: "''bogus'' \<notin> set (inherited (paypalUrls (cfg example_state)))"
    by (simp add: example_defs)
  from configure_invalid_env [OF h1 h2 h3 h4] h1 h2 h3 h4 show ?thesis by simp
qed

text \<open>
  Claim C9. When \<open>configure\<close> raises, the error is the invalid-environment error and the
  whole state is as before the call: environment, stage, API stage, UI state and feature
  flag keep their values, and no log level has been applied (nothing was emitted).
\<close>

theorem configure_error_leaves_state:
  assumes "configure opts s = Inl (err, s')"
  shows "s' = s \<and> emitted s s' = [] \<and> err = InvalidEnv (str_of (opt_env opts))"
  using assms by (auto simp: configure_def emitted_same split: if_splits)

theorem configure_error_leaves_state_witness:
  "configure bogus_options loaded_state = Inl (InvalidEnv ''bogus'', loaded_state)
   \<and> emitted loaded_state loaded_state = []"
proof -
  have h: "configure bogus_options loaded_state = Inl (InvalidEnv ''bogus'', loaded_state)"
    by (simp add: configure_def js_get_def more_defs example_defs)
  from configure_error_leaves_state [OF h] h show ?thesis by simp
qed

text \<open>
  Claim C8, as stated, lets every present field overwrite its configuration field with the
  supplied value. A stage given as the empty string and a feature flag given as \<open>false\<close>
  are present, and the call, which is accepted, leaves \<open>config.stage\<close> and
  \<open>config.ppobjects\<close> as they were.
\<close>

theorem configure_present_fields_counterexample:
  "opt_stage switched_off_options = Val [] \<and> opt_ppobjects switched_off_options = Val False
   \<and> configure switched_off_options loaded_state = Inr (emit (SetLogLevel ''warn'') loaded_state)
   \<and> stage (cfg (emit (SetLogLevel ''warn'') loaded_state)) = ''msmaster''
   \<and> ppobjects (cfg (emit (SetLogLevel ''warn'') loaded_state)) = True"
  by (simp add: more_defs example_defs configure_def configure_rest_def
      configure_logLevel_def configure_field_defs emit_def)

text \<open>
  Claim C8, amended. For every options record accepted by \<open>configure\<close>: each field that is
  truthy (a non-empty string for environment, stage, API stage and UI state; \<open>true\<close> for
  the feature flag) overwrites the corresponding configuration field with the supplied
  value, and exactly one log level is applied: the supplied one when it is a non-empty
  string, otherwise the value that \<open>config.logLevel\<close> had before the call.
\<close>

theorem configure_truthy_fields:
  assumes "configure opts s = Inr s'"
  shows "(\<forall>v. opt_env opts = Val v \<and> v \<noteq> [] \<longrightarrow> env (cfg s') = v)
       \<and> (\<forall>v. opt_stage opts = Val v \<and> v \<noteq> [] \<longrightarrow> stage (cfg s') = v)
       \<and> (\<forall>v. opt_apiStage opts = Val v \<and> v \<noteq> [] \<longrightarrow> apiStage (cfg s') = v)
       \<and> (\<forall>v. opt_state opts = Val v \<and> v \<noteq> [] \<longrightarrow> state (cfg s') = v)
       \<and> (opt_ppobjects opts = Val True \<longrightarrow> ppobjects (cfg s') = True)
       \<and> (\<forall>v. opt_logLevel opts = Val v \<and> v \<noteq> [] \<longrightarrow> emitted s s' = [SetLogLevel v])
       \<and> (opt_logLevel opts \<in> {Undefined, Null, Val []} \<longrightarrow>
            emitted s s' = [SetLogLevel (logLevel (cfg s))])"
proof -
  from assms have s': "s' = configure_rest opts
      (if truthy_str (opt_env opts) then s\<lparr>cfg := (cfg s)\<lparr>env := str_of (opt_env opts)\<rparr>\<rparr> else s)"
    by (auto simp: configure_def split: if_splits)
  have ev: "emitted s s' = [SetLogLevel (if truthy_str (opt_logLevel opts)
               then str_of (opt_logLevel opts) else logLevel (cfg s))]"
    by (rule emitted_append) (simp add: s' events_configure_rest)
  have lv: "opt_logLevel opts \<in> {Undefined, Null, Val []} \<longleftrightarrow> \<not> truthy_str (opt_logLevel opts)"
    by (rule falsy_str)
  have fields: "(\<forall>v. opt_env opts = Val v \<and> v \<noteq> [] \<longrightarrow> env (cfg s') = v)
       \<and> (\<forall>v. opt_stage opts = Val v \<and> v \<noteq> [] \<longrightarrow> stage (cfg s') = v)
       \<and> (\<forall>v. opt_apiStage opts = Val v \<and> v \<noteq> [] \<longrightarrow> apiStage (cfg s') = v)
       \<and> (\<forall>v. opt_state opts = Val v \<and> v \<noteq> [] \<longrightarrow> state (cfg s') = v)
       \<and> (opt_ppobjects opts = Val True \<longrightarrow> ppobjects (cfg s') = True)"
    by (auto simp: s' cfg_configure_rest configure_field_defs)
  have level: "(\<forall>v. opt_logLevel opts = Val v \<and> v \<noteq> [] \<longrightarrow> emitted s s' = [SetLogLevel v])
       \<and> (opt_logLevel opts \<in> {Undefined, Null, Val []} \<longrightarrow>
            emitted s s' = [SetLogLevel (logLevel (cfg s))])"
    unfolding lv by (auto simp: ev)
  from fields level show ?thesis by simp
qed

theorem configure_truthy_fields_witness:
  "configure all_options example_state =
     Inr (configure_rest all_options (example_state\<lparr>cfg := example_config\<lparr>env := ''sandbox''\<rparr>\<rparr>))
   \<and> cfg (configure_rest all_options (example_state\<lparr>cfg := example_config\<lparr>env := ''sandbox''\<rparr>\<rparr>)) =
       example_config\<lparr>env := ''sandbox'', stage := ''stage2d0065'', apiStage := ''api7'',
                      state := ''ui'', ppobjects := True\<rparr>
   \<and> emitted example_state
        (configure_rest all_options (example_state\<lparr>cfg := example_config\<lparr>env := ''sandbox''\<rparr>\<rparr>)) =
       [SetLogLevel ''debug'']
   \<and> configure no_options example_state = Inr (emit (SetLogLevel ''warn'') example_state)
   \<and> emitted example_state (emit (SetLogLevel ''warn'') example_state) = [SetLogLevel ''warn'']"
proof -
  let ?s' = "configure_rest all_options (example_state\<lparr>cfg := example_config\<lparr>env := ''sandbox''\<rparr>\<rparr>)"
  have h: "configure all_options example_state = Inr ?s'"
    by (simp add: configure_def js_get_def more_defs example_defs)
  have k: "configure no_options example_state = Inr (emit (SetLogLevel ''warn'') example_state)"
    by (simp add: configure_no_options example_defs)
  have o: "opt_env all_options = Val ''sandbox''" "opt_stage all_options = Val ''stage2d0065''"
    "opt_apiStage all_options = Val ''api7''" "opt_state all_options = Val ''ui''"
    "opt_ppobjects all_options = Val True" "opt_logLevel all_options = Val ''debug''"
    "opt_logLevel no_options = Undefined"
    by (simp_all add: more_defs)
  have c: "cfg ?s' = example_config\<lparr>env := env (cfg ?s'), stage := stage (cfg ?s'),
      apiStage := apiStage (cfg ?s'), state := state (cfg ?s'), ppobjects := ppobjects (cfg ?s')\<rparr>"
    by (simp add: cfg_configure_rest configure_field_defs example_state_def)
  from configure_truthy_fields [OF h] o
  have f: "env (cfg ?s') = ''sandbox''" "stage (cfg ?s') = ''stage2d0065''"
    "apiStage (cfg ?s') = ''api7''" "state (cfg ?s') = ''ui''" "ppobjects (cfg ?s') = True"
    "emitted example_state ?s' = [SetLogLevel ''debug'']"
    by simp_all
  from configure_truthy_fields [OF k] o
  have g: "emitted example_state (emit (SetLogLevel ''warn'') example_state) =
      [SetLogLevel (logLevel (cfg example_state))]"
    by simp
  have l: "logLevel (cfg example_state) = ''warn''" by (simp add: example_defs)
  from c f have c': "cfg ?s' = example_config\<lparr>env := ''sandbox'', stage := ''stage2d0065'',
      apiStage := ''api7'', state := ''ui'', ppobjects := True\<rparr>" by simp
  from h k c' f(6) g l show ?thesis by simp
qed


text \<open>
  Claim C10. A falsy environment override (the empty string, \<open>null\<close> or \<open>undefined\<close>)
  never makes \<open>configure\<close> or \<open>setup\<close> raise: both return, and the active environment
  is unchanged. The same skip applies to the other fields: a falsy stage, API stage, UI
  state or feature flag leaves its configuration field unchanged, and with a falsy log
  level the call applies the log level that \<open>config.logLevel\<close> already had.
\<close>

theorem falsy_fields_are_skipped:
  shows "(opt_env opts \<in> {Undefined, Null, Val []} \<longrightarrow>
            (\<exists>s'. configure opts s = Inr s' \<and> env (cfg s') = env (cfg s))
          \<and> (\<exists>s'. setup_sdk p opts s = Inr s' \<and> env (cfg s') = env (cfg s)))
       \<and> (\<forall>s'. configure opts s = Inr s' \<longrightarrow>
            (opt_stage opts \<in> {Undefined, Null, Val []} \<longrightarrow> stage (cfg s') = stage (cfg s))
          \<and> (opt_apiStage opts \<in> {Undefined, Null, Val []} \<longrightarrow> apiStage (cfg s') = apiStage (cfg s))
          \<and> (opt_state opts \<in> {Undefined, Null, Val []} \<longrightarrow> state (cfg s') = state (cfg s))
          \<and> (opt_ppobjects opts \<in> {Undefined, Null, Val False} \<longrightarrow> ppobjects (cfg s') = ppobjects (cfg s))
          \<and> (opt_logLevel opts \<in> {Undefined, Null, Val []} \<longrightarrow>
                emitted s s' = [SetLogLevel (logLevel (cfg s))]))"
proof (intro conjI impI allI)
  assume "opt_env opts \<in> {Undefined, Null, Val []}"
  then have f: "\<not> truthy_str (opt_env opts)" by auto
  then have c: "configure opts s = Inr (configure_rest opts s)"
    by (simp add: configure_def)
  show "\<exists>s'. configure opts s = Inr s' \<and> env (cfg s') = env (cfg s)"
    by (simp add: c cfg_configure_rest configure_field_defs)
  show "\<exists>s'. setup_sdk p opts s = Inr s' \<and> env (cfg s') = env (cfg s)"
    by (simp add: setup_sdk_def c init_def once_def cfg_init_body cfg_configure_rest
        configure_field_defs)
next
  fix s' assume r: "configure opts s = Inr s'"
  then have s': "s' = configure_rest opts
      (if truthy_str (opt_env opts) then s\<lparr>cfg := (cfg s)\<lparr>env := str_of (opt_env opts)\<rparr>\<rparr> else s)"
    by (auto simp: configure_def split: if_splits)
  { assume "opt_stage opts \<in> {Undefined, Null, Val []}"
    then have "\<not> truthy_str (opt_stage opts)" by auto
    then show "stage (cfg s') = stage (cfg s)"
      by (simp add: s' cfg_configure_rest configure_field_defs) }
  { assume "opt_apiStage opts \<in> {Undefined, Null, Val []}"
    then have "\<not> truthy_str (opt_apiStage opts)" by auto
    then show "apiStage (cfg s') = apiStage (cfg s)"
      by (simp add: s' cfg_configure_rest configure_field_defs) }
  { assume "opt_state opts \<in> {Undefined, Null, Val []}"
    then have "\<not> truthy_str (opt_state opts)" by auto
    then show "state (cfg s') = state (cfg s)"
      by (simp add: s' cfg_configure_rest configure_field_defs) }
  { assume "opt_ppobjects opts \<in> {Undefined, Null, Val False}"
    then have "\<not> truthy_bool (opt_ppobjects opts)" by auto
    then show "ppobjects (cfg s') = ppobjects (cfg s)"
      by (simp add: s' cfg_configure_rest configure_field_defs) }
  { assume "opt_logLevel opts \<in> {Undefined, Null, Val []}"
    then have "\<not> truthy_str (opt_logLevel opts)" by auto
    then show "emitted s s' = [SetLogLevel (logLevel (cfg s))]"
      by (intro emitted_append) (simp add: s' events_configure_rest) }
qed

theorem falsy_fields_are_skipped_witness:
  "opt_env falsy_options \<in> {Undefined, Null, Val []}
   \<and> configure falsy_options loaded_state = Inr (emit (SetLogLevel ''warn'') loaded_state)
   \<and> (\<exists>s'. setup_sdk example_page falsy_options loaded_state = Inr s'
            \<and> env (cfg s') = env (cfg loaded_state))
   \<and> cfg (emit (SetLogLevel ''warn'') loaded_state) = cfg loaded_state
   \<and> emitted loaded_state (emit (SetLogLevel ''warn'') loaded_state) = [SetLogLevel ''warn'']"
proof -
  have o: "opt_env falsy_options = Val []" "opt_stage falsy_options = Null"
    "opt_apiStage falsy_options = Undefined" "opt_state falsy_options = Val []"
    "opt_ppobjects falsy_options = Val False" "opt_logLevel falsy_options = Null"
    by (simp_all add: more_defs)
  have h: "configure falsy_options loaded_state = Inr (emit (SetLogLevel ''warn'') loaded_state)"
    by (simp add: configure_def configure_rest_def configure_logLevel_def configure_field_defs o)
       (simp add: more_defs example_defs)
  note t = falsy_fields_are_skipped [of falsy_options loaded_state example_page]
  from t o have a: "\<exists>s'. setup_sdk example_page falsy_options loaded_state = Inr s'
            \<and> env (cfg s') = env (cfg loaded_state)" by simp
  from t h o have b: "emitted loaded_state (emit (SetLogLevel ''warn'') loaded_state) =
      [SetLogLevel (logLevel (cfg loaded_state))]" by simp
  have l: "logLevel (cfg loaded_state) = ''warn''" by (simp add: more_defs example_defs)
  from o h a b l show ?thesis by (simp add: cfg_emit)
qed

subsection \<open>The environment resolver\<close>

lemma js_get_own_iff: "js_get obj k = JStr d \<longleftrightarrow> map_of (own obj) k = Some d"
  by (simp add: js_get_def split: option.split)

lemma domainToEnv_loop_find:
  "domainToEnv_loop urls ks d = find (\<lambda>e. map_of (own urls) e = Some d) ks"
  by (induction ks) (simp_all add: js_get_own_iff)

lemma find_first:
  "(\<forall>x\<in>set pre. \<not> P x) \<Longrightarrow> P e \<Longrightarrow> find P (pre @ e # post) = Some e"
  by (induction pre) simp_all

lemma find_none: "(\<forall>x\<in>set xs. \<not> P x) \<Longrightarrow> find P xs = None"
  by (induction xs) simp_all

lemma find_split:
  "find P xs = Some e \<Longrightarrow> \<exists>pre post. xs = pre @ e # post \<and> P e \<and> (\<forall>x\<in>set pre. \<not> P x)"
proof (induction xs)
  case Nil
  then show ?case by simp
next
  case (Cons a xs)
  show ?case
  proof (cases "P a")
    case True
    with Cons.prems have "a = e" by simp
    with True have "a # xs = [] @ e # xs \<and> P e \<and> (\<forall>x\<in>set []. \<not> P x)" by simp
    then show ?thesis by blast
  next
    case False
    with Cons.prems have "find P xs = Some e" by simp
    from Cons.IH [OF this] obtain pre post
      where "xs = pre @ e # post" "P e" "\<forall>x\<in>set pre. \<not> P x" by blast
    with False have "a # xs = (a # pre) @ e # post \<and> P e \<and> (\<forall>x\<in>set (a # pre). \<not> P x)"
      by simp
    then show ?thesis by blast
  qed
qed

text \<open>
  Claim C3, as stated, sets the active environment to the name of any environment other
  than \<open>test\<close> whose domain equals the origin. On the example page the origin is the domain
  of \<open>demo\<close>, but the loop stops at \<open>test\<close>, which comes first in the table and has the
  same domain, and the active environment stays \<open>production\<close>.
\<close>

theorem setDomainEnv_shared_domain_counterexample:
  "map_of (own (paypalUrls (cfg example_state))) ''demo'' = Some ''http://localhost.paypal.com:9000''
   \<and> ''demo'' \<noteq> ''test''
   \<and> env (cfg (setDomainEnv ''http://localhost.paypal.com:9000'' example_state)) = ''production''
   \<and> ''production'' \<noteq> ''demo''"
  by (simp add: setDomainEnv_def domainToEnv_def Object_keys_def js_get_def example_defs)

text \<open>
  Claim C3, amended. For every page origin: if \<open>e\<close> is the first environment, in the
  order of the keys of the environment-to-domain mapping, whose domain equals the origin,
  then \<open>setDomainEnv\<close> sets the active environment to \<open>e\<close> when \<open>e\<close> is not \<open>test\<close> (and
  not the empty name) and leaves the state unchanged otherwise; if the origin equals no
  known domain the state is unchanged. The function returns in every case.
\<close>

theorem setDomainEnv_first_match:
  shows "(\<forall>pre e post.
            Object_keys (paypalUrls (cfg s)) = pre @ e # post
            \<and> map_of (own (paypalUrls (cfg s))) e = Some d
            \<and> (\<forall>x\<in>set pre. map_of (own (paypalUrls (cfg s))) x \<noteq> Some d)
            \<longrightarrow> setDomainEnv d s =
                  (if e \<noteq> [] \<and> e \<noteq> ''test'' then s\<lparr>cfg := (cfg s)\<lparr>env := e\<rparr>\<rparr> else s))
       \<and> ((\<forall>x\<in>set (Object_keys (paypalUrls (cfg s))). map_of (own (paypalUrls (cfg s))) x \<noteq> Some d)
            \<longrightarrow> setDomainEnv d s = s)"
proof (intro conjI allI impI)
  fix pre e post
  assume a: "Object_keys (paypalUrls (cfg s)) = pre @ e # post
            \<and> map_of (own (paypalUrls (cfg s))) e = Some d
            \<and> (\<forall>x\<in>set pre. map_of (own (paypalUrls (cfg s))) x \<noteq> Some d)"
  then have "domainToEnv (cfg s) d = Some e"
    by (simp add: domainToEnv_def domainToEnv_loop_find find_first)
  then show "setDomainEnv d s =
      (if e \<noteq> [] \<and> e \<noteq> ''test'' then s\<lparr>cfg := (cfg s)\<lparr>env := e\<rparr>\<rparr> else s)"
    by (simp add: setDomainEnv_def)
next
  assume "\<forall>x\<in>set (Object_keys (paypalUrls (cfg s))). map_of (own (paypalUrls (cfg s))) x \<noteq> Some d"
  then have "domainToEnv (cfg s) d = None"
    by (simp add: domainToEnv_def domainToEnv_loop_find find_none)
  then show "setDomainEnv d s = s"
    by (simp add: setDomainEnv_def)
qed

theorem setDomainEnv_first_match_witness:
  "setDomainEnv ''https://www.sandbox.paypal.com'' example_state =
     example_state\<lparr>cfg := (cfg example_state)\<lparr>env := ''sandbox''\<rparr>\<rparr>
   \<and> setDomainEnv ''http://localhost.paypal.com:9000'' example_state = example_state
   \<and> setDomainEnv ''https://example.com'' example_state = example_state"
proof -
  have k: "Object_keys (paypalUrls (cfg example_state)) =
      [''local'', ''sandbox'', ''production'', ''test'', ''demo'']"
    by (simp add: example_defs Object_keys_def)
  have o: "own (paypalUrls (cfg example_state)) = own example_urls"
    by (simp add: example_defs)
  from setDomainEnv_first_match [of example_state "''https://www.sandbox.paypal.com''",
      THEN conjunct1, rule_format, of "[''local'']" "''sandbox''" "[''production'', ''test'', ''demo'']"]
  have a: "setDomainEnv ''https://www.sandbox.paypal.com'' example_state =
     example_state\<lparr>cfg := (cfg example_state)\<lparr>env := ''sandbox''\<rparr>\<rparr>"
    by (simp add: k o example_urls_def)
  from setDomainEnv_first_match [of example_state "''http://localhost.paypal.com:9000''",
      THEN conjunct1, rule_format, of "[''local'', ''sandbox'', ''production'']" "''test''" "[''demo'']"]
  have b: "setDomainEnv ''http://localhost.paypal.com:9000'' example_state = example_state"
    by (simp add: k o example_urls_def)
  from setDomainEnv_first_match [of example_state "''https://example.com''", THEN conjunct2]
  have c: "setDomainEnv ''https://example.com'' example_state = example_state"
    by (simp add: k o example_urls_def)
  from a b c show ?thesis by simp
qed

subsection \<open>The script-tag locator\<close>

lemma startsWith_iff: "startsWith p s \<longleftrightarrow> (\<exists>v. s = p @ v)"
  by (induction p s rule: startsWith.induct) auto

lemma indexOf_from_found:
  "0 \<le> i \<Longrightarrow> indexOf_from i s sub \<noteq> - 1 \<longleftrightarrow> (\<exists>u v. s = u @ sub @ v)"
proof (induction s arbitrary: i)
  case Nil
  then show ?case by auto
next
  case (Cons c cs)
  show ?case
  proof (cases "startsWith sub (c # cs)")
    case True
    then obtain v where "c # cs = [] @ sub @ v" by (auto simp: startsWith_iff)
    then have "\<exists>u v. c # cs = u @ sub @ v" by blast
    with True Cons.prems show ?thesis by simp
  next
    case False
    have "(\<exists>u v. c # cs = u @ sub @ v) \<longleftrightarrow> (\<exists>u v. cs = u @ sub @ v)"
    proof
      assume "\<exists>u v. c # cs = u @ sub @ v"
      then obtain u v where uv: "c # cs = u @ sub @ v" by blast
      show "\<exists>u v. cs = u @ sub @ v"
      proof (cases u)
        case Nil
        with uv False show ?thesis by (simp add: startsWith_iff)
      next
        case (Cons a u')
        with uv have "cs = u' @ sub @ v" by simp
        then show ?thesis by blast
      qed
    next
      assume "\<exists>u v. cs = u @ sub @ v"
      then obtain u v where "cs = u @ sub @ v" by blast
      then have "c # cs = (c # u) @ sub @ v" by simp
      then show "\<exists>u v. c # cs = u @ sub @ v" by blast
    qed
    moreover from Cons.prems have "0 \<le> i + 1" by simp
    ultimately show ?thesis using False Cons.IH [of "i + 1"] by simp
  qed
qed

lemma has_legacy_name_indexOf:
  "has_legacy_name sc \<longleftrightarrow> indexOf (src sc) ''paypal.checkout.v4.js'' \<noteq> - 1"
  by (simp add: has_legacy_name_def indexOf_def indexOf_from_found)

lemma has_legacy_name_src: "has_legacy_name sc \<Longrightarrow> src sc \<noteq> []"
  by (auto simp: has_legacy_name_def)

lemma has_marker_hasAttribute: "has_marker sc \<longleftrightarrow> hasAttribute sc ''data-paypal-checkout''"
  by (simp add: has_marker_def hasAttribute_def map_of_eq_None_iff)

lemma stripped_src_empty: "src sc = [] \<Longrightarrow> stripped_src sc = []"
  by (simp add: stripped_src_def strip_protocol_def)

lemma loop_step:
  "getCurrentScript_loop c (sc # rest) =
     (if (src sc \<noteq> [] \<and> stripped_src sc = scriptUrl c) \<or> has_marker sc \<or> has_legacy_name sc
      then Some sc else getCurrentScript_loop c rest)"
proof -
  have a: "split_head CHR ''?'' (strip_protocol (src sc)) = stripped_src sc"
    by (simp add: stripped_src_def split_head_def)
  have b: "hasAttribute sc ''data-paypal-checkout'' = has_marker sc"
    by (simp only: has_marker_hasAttribute)
  have c: "(src sc \<noteq> [] \<and> indexOf (src sc) ''paypal.checkout.v4.js'' \<noteq> - 1) = has_legacy_name sc"
    using has_legacy_name_src [of sc] has_legacy_name_indexOf [of sc] by blast
  show ?thesis
    by (simp only: getCurrentScript_loop.simps a b c) simp
qed

lemma loop_find:
  "scriptUrl c \<noteq> [] \<Longrightarrow> getCurrentScript_loop c xs = find (recognized c) xs"
proof (induction xs)
  case Nil
  show ?case by simp
next
  case (Cons sc rest)
  from Cons.prems have e: "(src sc \<noteq> [] \<and> stripped_src sc = scriptUrl c) = (stripped_src sc = scriptUrl c)"
    using stripped_src_empty [of sc] by auto
  from Cons have ih: "getCurrentScript_loop c rest = find (recognized c) rest" by simp
  show ?case
    unfolding loop_step e ih find.simps recognized_def by (rule refl)
qed

lemma loop_unrecognized:
  "\<forall>x\<in>set xs. \<not> recognized c x \<Longrightarrow> getCurrentScript_loop c xs = None"
proof (induction xs)
  case Nil
  show ?case by simp
next
  case (Cons sc rest)
  then have ih: "getCurrentScript_loop c rest = None" by simp
  from Cons.prems have "\<not> recognized c sc" by simp
  then have n: "\<not> ((src sc \<noteq> [] \<and> stripped_src sc = scriptUrl c) \<or> has_marker sc \<or> has_legacy_name sc)"
    by (simp add: recognized_def)
  show ?case
    unfolding loop_step ih using n by simp
qed

lemma fst_getCurrentScript: "fst (getCurrentScript p s) = getCurrentScript_loop (cfg s) (scripts p)"
  by (simp add: getCurrentScript_def split: option.split)

text \<open>
  Claim C4. For every document, given as the list of its script elements in document
  order, \<open>getCurrentScript\<close> returns the first element that satisfies at least one of the
  three heuristics (stripped source URL equal to the configured script URL, marker
  attribute present, source URL containing the legacy file name), and returns no value
  exactly when no element satisfies any of them. The configured script URL is taken to be
  a non-empty string.
\<close>

theorem getCurrentScript_first_recognized:
  assumes "scriptUrl (cfg s) \<noteq> []"
  shows "(\<forall>sc. fst (getCurrentScript p s) = Some sc \<longleftrightarrow>
            (\<exists>pre post. scripts p = pre @ sc # post \<and> recognized (cfg s) sc
                        \<and> (\<forall>x\<in>set pre. \<not> recognized (cfg s) x)))
       \<and> (fst (getCurrentScript p s) = None \<longleftrightarrow> (\<forall>x\<in>set (scripts p). \<not> recognized (cfg s) x))"
proof -
  have eq: "fst (getCurrentScript p s) = find (recognized (cfg s)) (scripts p)"
    using assms by (simp add: fst_getCurrentScript loop_find)
  have some: "find (recognized (cfg s)) (scripts p) = Some sc \<longleftrightarrow>
            (\<exists>pre post. scripts p = pre @ sc # post \<and> recognized (cfg s) sc
                        \<and> (\<forall>x\<in>set pre. \<not> recognized (cfg s) x))" for sc
  proof
    assume "find (recognized (cfg s)) (scripts p) = Some sc"
    then show "\<exists>pre post. scripts p = pre @ sc # post \<and> recognized (cfg s) sc
                        \<and> (\<forall>x\<in>set pre. \<not> recognized (cfg s) x)"
      by (rule find_split)
  next
    assume "\<exists>pre post. scripts p = pre @ sc # post \<and> recognized (cfg s) sc
                        \<and> (\<forall>x\<in>set pre. \<not> recognized (cfg s) x)"
    then obtain pre post where "scripts p = pre @ sc # post" "recognized (cfg s) sc"
      "\<forall>x\<in>set pre. \<not> recognized (cfg s) x" by blast
    then show "find (recognized (cfg s)) (scripts p) = Some sc"
      by (simp add: find_first)
  qed
  have none: "find (recognized (cfg s)) (scripts p) = None \<longleftrightarrow>
        (\<forall>x\<in>set (scripts p). \<not> recognized (cfg s) x)"
    by (auto simp: find_None_iff)
  show ?thesis unfolding eq using some none by blast
qed

theorem getCurrentScript_first_recognized_witness:
  "scriptUrl (cfg example_state) \<noteq> []
   \<and> scripts shop_page = [plain_script, checkout_script]
   \<and> fst (getCurrentScript shop_page example_state) = Some checkout_script
   \<and> recognized (cfg example_state) checkout_script
   \<and> scripts example_page = [plain_script]
   \<and> fst (getCurrentScript example_page example_state) = None
   \<and> \<not> recognized (cfg example_state) plain_script"
proof -
  have h: "scriptUrl (cfg example_state) \<noteq> []" by (simp add: example_defs)
  have s: "scripts shop_page = [plain_script, checkout_script]" "scripts example_page = [plain_script]"
    by (simp_all add: shop_page_def example_page_def)
  have a: "fst (getCurrentScript shop_page example_state) = Some checkout_script"
    by (simp add: fst_getCurrentScript more_defs example_defs strip_protocol_def split_head_def
        hasAttribute_def indexOf_def)
  have b: "fst (getCurrentScript example_page example_state) = None"
    by (simp add: fst_getCurrentScript more_defs example_defs strip_protocol_def split_head_def
        hasAttribute_def indexOf_def)
  note t = getCurrentScript_first_recognized [OF h]
  from t [of shop_page] a have c: "recognized (cfg example_state) checkout_script" by blast
  from t [of example_page] b s have d: "\<not> recognized (cfg example_state) plain_script" by simp
  from h s a b c d show ?thesis by simp
qed

subsection \<open>The reporter of unobserved failures\<close>

lemma events_flush_failed:
  "\<exists>evs. events (flush_failed con err2 s) = events s @ evs
       \<and> (\<forall>e\<in>set evs. \<not> is_error_log e \<and> \<not> is_track e \<and> \<not> is_flush e)"
proof -
  have w: "\<exists>evs. events (console_write call m err2 s) = events s @ evs
       \<and> (\<forall>e\<in>set evs. \<not> is_error_log e \<and> \<not> is_track e \<and> \<not> is_flush e)"
    if "call = ConsoleError \<or> call = ConsoleLog" for call m
    using that by (auto simp: console_write_def events_emit split: sum.split behaviour.split)
  show ?thesis
    by (auto simp: flush_failed_def w split: option.split)
qed

lemma events_handler:
  "\<exists>evs. events (onPossiblyUnhandledException con fr err s) = events s @ report_events err @ evs
       \<and> (\<forall>e\<in>set evs. \<not> is_error_log e \<and> \<not> is_track e \<and> \<not> is_flush e)"
proof (cases fr)
  case None
  then show ?thesis
    by (simp add: onPossiblyUnhandledException_def Let_def events_emit report_events_def)
next
  case (Some err2)
  let ?s3 = "emit LoggerFlush (emit (LoggerTrack
                       [(ERROR_CODE, PStr ''checkoutjs_error''),
                        (ERROR_DESC, StringifyErrorMessage err)])
              (emit (LoggerError ''unhandled_error''
                       [(''stack'', StringifyError err), (''errtype'', ObjectToString err)]) s))"
  have s3: "events ?s3 = events s @ report_events err"
    by (simp add: events_emit report_events_def)
  from events_flush_failed [of con err2 ?s3] obtain evs
    where "events (flush_failed con err2 ?s3) = events ?s3 @ evs"
      and "\<forall>e\<in>set evs. \<not> is_error_log e \<and> \<not> is_track e \<and> \<not> is_flush e" by blast
  with Some s3 show ?thesis
    by (simp add: onPossiblyUnhandledException_def Let_def)
qed

text \<open>
  Claim C6. For every error delivered to the handler, whatever the outcome of the flush and
  whatever console the page has, the handler emits exactly one structured error log (with
  the stringified stack and the error type), exactly one tracking event (with the error
  code and the description), and makes exactly one flush attempt.
\<close>

theorem handler_reports_once:
  "filter is_error_log (emitted s (onPossiblyUnhandledException con fr err s)) =
     [LoggerError ''unhandled_error''
        [(''stack'', StringifyError err), (''errtype'', ObjectToString err)]]
   \<and> filter is_track (emitted s (onPossiblyUnhandledException con fr err s)) =
     [LoggerTrack [(ERROR_CODE, PStr ''checkoutjs_error''), (ERROR_DESC, StringifyErrorMessage err)]]
   \<and> filter is_flush (emitted s (onPossiblyUnhandledException con fr err s)) = [LoggerFlush]"
proof -
  from events_handler [of con fr err s] obtain evs
    where ev: "events (onPossiblyUnhandledException con fr err s) = events s @ report_events err @ evs"
      and no: "\<forall>e\<in>set evs. \<not> is_error_log e \<and> \<not> is_track e \<and> \<not> is_flush e" by blast
  from ev have em: "emitted s (onPossiblyUnhandledException con fr err s) = report_events err @ evs"
    by (rule emitted_append)
  from no have "filter is_error_log evs = []" "filter is_track evs = []" "filter is_flush evs = []"
    by (simp_all add: filter_none)
  then show ?thesis
    by (simp add: em report_events_def)
qed

theorem handler_reports_once_witness:
  "filter is_error_log (emitted example_state
      (onPossiblyUnhandledException (Some broken_console) (Some flush_error) page_error example_state)) =
     [LoggerError ''unhandled_error''
        [(''stack'', StringifyError page_error), (''errtype'', ObjectToString page_error)]]
   \<and> length (filter is_track (emitted example_state
      (onPossiblyUnhandledException (Some broken_console) (Some flush_error) page_error example_state))) = 1
   \<and> length (filter is_flush (emitted example_state
      (onPossiblyUnhandledException (Some broken_console) (Some flush_error) page_error example_state))) = 1"
  using handler_reports_once [of example_state "Some broken_console" "Some flush_error" page_error]
  by simp

text \<open>
  Claim C7, as stated, has the original flush error thrown again when the console write
  fails. With a console whose \<open>error\<close> function throws, the timer that the handler sets
  throws the error of the console write, which is a different value.
\<close>

theorem flush_error_not_rethrown_counterexample:
  "filter is_timer (emitted example_state
        (onPossiblyUnhandledException (Some broken_console) (Some flush_error) page_error example_state)) =
       [SetTimeoutThrow console_failure 1]
   \<and> console_failure \<noteq> flush_error"
  by (simp add: onPossiblyUnhandledException_def flush_failed_def console_write_def emitted_def
      emit_def Let_def more_defs example_defs)

text \<open>
  Claim C7, amended. If the flush attempt fails with an error object \<open>err2\<close> and the
  fallback console write (\<open>console.error\<close>, or \<open>console.log\<close> when the console has no
  \<open>error\<close>) throws \<open>err3\<close>, then the handler sets exactly one timer, of one millisecond,
  that throws \<open>err3\<close>, the error of the console write; the flush error itself is not
  thrown again.
\<close>

theorem console_failure_rethrown:
  assumes "err2 \<noteq> Nullish"
    and "console_error w = Some (Throws err3)
         \<or> (console_error w = None \<and> console_log w = Some (Throws err3))"
  shows "filter is_timer (emitted s (onPossiblyUnhandledException (Some w) (Some err2) err s)) =
           [SetTimeoutThrow err3 1]"
proof -
  let ?s3 = "emit LoggerFlush (emit (LoggerTrack
                       [(ERROR_CODE, PStr ''checkoutjs_error''),
                        (ERROR_DESC, StringifyErrorMessage err)])
              (emit (LoggerError ''unhandled_error''
                       [(''stack'', StringifyError err), (''errtype'', ObjectToString err)]) s))"
  from assms(1) obtain msg where msg: "stack_or_toString err2 = Inr msg"
    by (cases err2) auto
  have w: "events (console_write call (Throws err3) err2 ?s3) =
      events s @ report_events err @ [call ''Error flushing:'' msg, SetTimeoutThrow err3 1]" for call
    by (simp add: console_write_def msg events_emit report_events_def)
  from assms(2) have "\<exists>call. (call = ConsoleError \<or> call = ConsoleLog) \<and>
      flush_failed (Some w) err2 ?s3 = console_write call (Throws err3) err2 ?s3"
    by (auto simp: flush_failed_def)
  then obtain call where c: "call = ConsoleError \<or> call = ConsoleLog"
    and f: "flush_failed (Some w) err2 ?s3 = console_write call (Throws err3) err2 ?s3" by blast
  have "events (onPossiblyUnhandledException (Some w) (Some err2) err s) =
      events s @ report_events err @ [call ''Error flushing:'' msg, SetTimeoutThrow err3 1]"
    by (simp add: onPossiblyUnhandledException_def Let_def f w)
  then have "emitted s (onPossiblyUnhandledException (Some w) (Some err2) err s) =
      report_events err @ [call ''Error flushing:'' msg, SetTimeoutThrow err3 1]"
    by (rule emitted_append)
  with c show ?thesis by (auto simp: report_events_def)
qed

theorem console_failure_rethrown_witness:
  "flush_error \<noteq> Nullish
   \<and> console_error log_only_console = None
   \<and> console_log log_only_console = Some (Throws console_failure)
   \<and> filter is_timer (emitted example_state
        (onPossiblyUnhandledException (Some log_only_console) (Some flush_error) page_error example_state)) =
       [SetTimeoutThrow console_failure 1]"
proof -
  have a: "flush_error \<noteq> Nullish" by (simp add: flush_error_def)
  have b: "console_error log_only_console = None"
    "console_log log_only_console = Some (Throws console_failure)"
    by (simp_all add: log_only_console_def)
  from b have c: "console_error log_only_console = Some (Throws console_failure)
         \<or> (console_error log_only_console = None
            \<and> console_log log_only_console = Some (Throws console_failure))" by simp
  from console_failure_rethrown [OF a c, of example_state page_error] a b show ?thesis by simp
qed

subsection \<open>Loading the module on a page without a recognised script\<close>

lemma no_not_recognized_init_events: "filter is_not_recognized (init_events p c) = []"
  by (simp add: init_events_def)

lemma events_setDomainEnv: "events (setDomainEnv d s) = events s"
  by (simp add: setDomainEnv_def split: option.split)

lemma scriptUrl_setDomainEnv: "scriptUrl (cfg (setDomainEnv d s)) = scriptUrl (cfg s)"
  by (simp add: setDomainEnv_def split: option.split)

lemma recognized_scriptUrl: "scriptUrl c' = scriptUrl c \<Longrightarrow> recognized c' sc = recognized c sc"
  by (simp add: recognized_def)

lemma events_not_recognized:
  "events (not_recognized p s) = events s @
     (case currentScript p of None \<Rightarrow> []
      | Some cur \<Rightarrow> [LoggerDebug ''current_script_not_recognized'' [(''src'', PStr (src cur))]])"
  by (simp add: not_recognized_def events_emit split: option.split)

lemma cfg_not_recognized: "cfg (not_recognized p s) = cfg s"
  by (simp add: not_recognized_def cfg_emit split: option.split)

lemma events_without_script:
  "\<exists>s'. without_script p s = Inr s' \<and>
     events s' = events s
       @ [LoggerTrack [(STATE, LOAD), (TRANSITION, SCRIPT_LOAD)],
          LoggerDebug ''no_current_script'' [],
          LoggerDebug (''no_current_script_version_'' @ version_tag (cfg s)) []]
       @ (case currentScript p of None \<Rightarrow> []
          | Some cur \<Rightarrow> [LoggerDebug ''current_script_not_recognized'' [(''src'', PStr (src cur))]])
       @ [SetLogLevel (logLevel (cfg s))]
       @ (if init_called s then [] else init_events p (cfg s))"
  by (simp add: without_script_def Let_def setup_sdk_def configure_no_options events_init
      events_emit cfg_emit init_called_emit events_not_recognized cfg_not_recognized
      not_recognized_def split: option.split)

lemma plain_script_unrecognized: "\<not> recognized (cfg example_state) plain_script"
  by (simp add: recognized_def stripped_src_def has_marker_def has_legacy_name_indexOf
      indexOf_def strip_protocol_def example_defs)

text \<open>
  Claim C5, as stated, has the locator and the fallback branch together emit exactly one
  not-recognized event on a document without a matching or marked script element. On the
  example page, where \<open>document.currentScript\<close> is set, they emit two.
\<close>

theorem bootstrap_two_logs_counterexample:
  "fst (getCurrentScript example_page example_state) = None
   \<and> length (filter is_not_recognized (bootstrap_events example_page example_state)) = 2"
  by code_simp

text \<open>
  Claim C5, amended. For every document with no matching or marked script elements: when
  \<open>document.currentScript\<close> is set, the locator emits exactly one not-recognized event and
  the fallback branch emits a second one, two in the whole sequence; when it is not set,
  none is emitted.
\<close>

theorem bootstrap_not_recognized_count:
  assumes "\<forall>sc\<in>set (scripts p). \<not> recognized (cfg s) sc"
  shows "length (filter is_not_recognized (emitted s (snd (getCurrentScript p s)))) =
           (if currentScript p = None then 0 else 1)
       \<and> length (filter is_not_recognized (bootstrap_events p s)) =
           (if currentScript p = None then 0 else 2)"
proof -
  define s1 where "s1 = setDomainEnv (location_protocol p @ ''//'' @ location_host p) s"
  define s2 where "s2 = not_recognized p s1"
  define nr where "nr = (case currentScript p of None \<Rightarrow> []
      | Some cur \<Rightarrow> [LoggerDebug ''current_script_not_recognized'' [(''src'', PStr (src cur))]])"
  have ev1: "events s1 = events s"
    by (simp add: s1_def events_setDomainEnv)
  have ev2: "events s2 = events s @ nr"
    by (simp add: s2_def nr_def events_not_recognized ev1)
  from assms have "\<forall>sc\<in>set (scripts p). \<not> recognized (cfg s1) sc"
    by (simp add: s1_def recognized_scriptUrl [OF scriptUrl_setDomainEnv])
  then have "getCurrentScript_loop (cfg s1) (scripts p) = None"
    by (rule loop_unrecognized)
  then have "getCurrentScript p s1 = (None, s2)"
    by (simp add: getCurrentScript_def s2_def)
  then have b: "bootstrap p s = without_script p s2"
    by (simp add: bootstrap_def Let_def s1_def)
  from events_without_script [of p s2] obtain s' evs
    where r: "without_script p s2 = Inr s'"
      and ev: "events s' = events s2
         @ [LoggerTrack [(STATE, LOAD), (TRANSITION, SCRIPT_LOAD)],
          LoggerDebug ''no_current_script'' [],
          LoggerDebug (''no_current_script_version_'' @ version_tag (cfg s2)) []]
         @ nr @ [SetLogLevel (logLevel (cfg s2))] @ evs"
      and evs: "evs = (if init_called s2 then [] else init_events p (cfg s2))"
    unfolding nr_def by auto
  have noevs: "filter is_not_recognized evs = []"
    by (simp add: evs no_not_recognized_init_events)
  have "events s' = events s @ (nr
         @ [LoggerTrack [(STATE, LOAD), (TRANSITION, SCRIPT_LOAD)],
          LoggerDebug ''no_current_script'' [],
          LoggerDebug (''no_current_script_version_'' @ version_tag (cfg s2)) []]
         @ nr @ [SetLogLevel (logLevel (cfg s2))] @ evs)"
    by (simp add: ev ev2)
  then have em: "emitted s s' = nr
         @ [LoggerTrack [(STATE, LOAD), (TRANSITION, SCRIPT_LOAD)],
          LoggerDebug ''no_current_script'' [],
          LoggerDebug (''no_current_script_version_'' @ version_tag (cfg s2)) []]
         @ nr @ [SetLogLevel (logLevel (cfg s2))] @ evs"
    by (rule emitted_append)
  have be: "bootstrap_events p s = emitted s s'"
    by (simp add: bootstrap_events_def b r)
  have cnt: "length (filter is_not_recognized nr) = (if currentScript p = None then 0 else 1)"
    by (simp add: nr_def split: option.split)
  from assms have "getCurrentScript_loop (cfg s) (scripts p) = None"
    by (rule loop_unrecognized)
  then have "getCurrentScript p s = (None, not_recognized p s)"
    by (simp add: getCurrentScript_def)
  moreover have "emitted s (not_recognized p s) = nr"
    by (rule emitted_append) (simp add: nr_def events_not_recognized)
  ultimately have loc: "length (filter is_not_recognized (emitted s (snd (getCurrentScript p s)))) =
           (if currentScript p = None then 0 else 1)"
    by (simp add: cnt)
  have "length (filter is_not_recognized (bootstrap_events p s)) =
           (if currentScript p = None then 0 else 2)"
    by (simp add: be em noevs cnt)
  with loc show ?thesis by simp
qed

theorem bootstrap_not_recognized_count_witness:
  "scripts example_page = [plain_script] \<and> scripts module_page = [plain_script]
   \<and> \<not> recognized (cfg example_state) plain_script
   \<and> length (filter is_not_recognized
         (emitted example_state (snd (getCurrentScript example_page example_state)))) = 1
   \<and> length (filter is_not_recognized (bootstrap_events example_page example_state)) = 2
   \<and> length (filter is_not_recognized (bootstrap_events module_page example_state)) = 0"
proof -
  have s: "scripts example_page = [plain_script]" "scripts module_page = [plain_script]"
    by (simp_all add: module_page_def example_page_def)
  have a: "\<forall>sc\<in>set (scripts example_page). \<not> recognized (cfg example_state) sc"
    using plain_script_unrecognized by (simp add: s)
  have b: "\<forall>sc\<in>set (scripts module_page). \<not> recognized (cfg example_state) sc"
    using plain_script_unrecognized by (simp add: s)
  have c: "currentScript example_page \<noteq> None" "currentScript module_page = None"
    by (simp_all add: module_page_def example_page_def)
  from bootstrap_not_recognized_count [OF a] bootstrap_not_recognized_count [OF b] c
    s plain_script_unrecognized
  show ?thesis by simp
qed

end
